theory Spec2Isabelle
  imports Main "HOL-Library.Word" "HOL-Library.List_Lexorder" "HOL-Library.Product_Lexorder"
    "HOL-Library.Sublist"
begin

unbundle bit_operations_syntax

section \<open>Bytes, blocks and the integer codec\<close>

text \<open>
  The B-tree of \<^verbatim>\<open>flint_table.cc\<close> works on raw byte buffers. A buffer is modelled as a
  store from C \<^verbatim>\<open>int\<close> offsets to bytes, so that \<^verbatim>\<open>p[c]\<close> is \<open>p c\<close> and a write is a function
  update. C \<^verbatim>\<open>int\<close> values (directory offsets, sizes, levels) are HOL integers: every value
  the code computes from a block of at most 65536 bytes is far from the 32-bit limits.
  \<^verbatim>\<open>uint4\<close> and \<^verbatim>\<open>unsigned int\<close> fields are 32-bit words.
\<close>

type_synonym Byte = "8 word"
type_synonym uint4 = "32 word"
type_synonym block = "int \<Rightarrow> Byte"

text \<open>
  Modelled from the spec: the integer codec of \<^verbatim>\<open>flint_utils.h\<close> (getint1, getint2,
  getint4 and their setters) is not among the sources. The spec stores every multi-byte
  field most significant byte first (the component counter is compared as a big-endian
  number by \<^verbatim>\<open>Key_::operator<\<close>, which is in the sources).
\<close>

definition getint1 :: "block \<Rightarrow> int \<Rightarrow> int" where
  "getint1 p c = uint (p c)"

definition getint2 :: "block \<Rightarrow> int \<Rightarrow> int" where
  "getint2 p c = uint (p c) * 256 + uint (p (c + 1))"

definition getint4 :: "block \<Rightarrow> int \<Rightarrow> int" where
  "getint4 p c = ((uint (p c) * 256 + uint (p (c + 1))) * 256 + uint (p (c + 2))) * 256
                   + uint (p (c + 3))"

definition setint1 :: "block \<Rightarrow> int \<Rightarrow> int \<Rightarrow> block" where
  "setint1 p c x = p(c := word_of_int x)"

definition setint2 :: "block \<Rightarrow> int \<Rightarrow> int \<Rightarrow> block" where
  "setint2 p c x = p(c := word_of_int (x div 256), c + 1 := word_of_int x)"

definition setint4 :: "block \<Rightarrow> int \<Rightarrow> int \<Rightarrow> block" where
  "setint4 p c x = p(c := word_of_int (x div 16777216), c + 1 := word_of_int (x div 65536),
                     c + 2 := word_of_int (x div 256), c + 3 := word_of_int x)"

text \<open>\<^verbatim>\<open>memmove(dst + d, src + s, l)\<close>: the bytes are read from \<open>src\<close> as it was before the call.\<close>

definition memmove :: "block \<Rightarrow> int \<Rightarrow> block \<Rightarrow> int \<Rightarrow> int \<Rightarrow> block" where
  "memmove dst d src s l = (\<lambda>a. if d \<le> a \<and> a < d + l then src (a - d + s) else dst a)"

subsection \<open>Layout constants and header fields\<close>

text \<open>
  \<^verbatim>\<open>DIR_START\<close>, \<^verbatim>\<open>SEQ_START_POINT\<close>, \<^verbatim>\<open>BYTE_PAIR_RANGE\<close>, \<^verbatim>\<open>COMPRESS_MIN\<close> and the header
  accessors are defined in \<^verbatim>\<open>flint_table.cc\<close>.

  Modelled from the spec: the field widths \<^verbatim>\<open>I2\<close>, \<^verbatim>\<open>K1\<close>, \<^verbatim>\<open>C2\<close>, \<^verbatim>\<open>D2\<close>, the key length limit
  and the number of cursor levels come from \<^verbatim>\<open>flint_table.h\<close>, which is not among the
  sources; the spec gives a 2-byte item length, a 1-byte key length, a 2-byte counter,
  2-byte directory slots, a maximum key length of 252 and about 10 cursor levels.
\<close>

definition DIR_START :: int where "DIR_START = 11"
definition D2 :: int where "D2 = 2"
definition I2 :: int where "I2 = 2"
definition K1 :: int where "K1 = 1"
definition C2 :: int where "C2 = 2"
definition BYTE_PAIR_RANGE :: int where "BYTE_PAIR_RANGE = 65536"
definition SEQ_START_POINT :: int where "SEQ_START_POINT = - 10"
definition COMPRESS_MIN :: nat where "COMPRESS_MIN = 4"
definition FLINT_BTREE_MAX_KEY_LEN :: nat where "FLINT_BTREE_MAX_KEY_LEN = 252"
definition BTREE_CURSOR_LEVELS :: int where "BTREE_CURSOR_LEVELS = 10"
definition BLK_UNUSED :: uint4 where "BLK_UNUSED = - 1"

definition REVISION :: "block \<Rightarrow> int" where "REVISION b = getint4 b 0"
definition GET_LEVEL :: "block \<Rightarrow> int" where "GET_LEVEL b = getint1 b 4"
definition MAX_FREE :: "block \<Rightarrow> int" where "MAX_FREE b = getint2 b 5"
definition TOTAL_FREE :: "block \<Rightarrow> int" where "TOTAL_FREE b = getint2 b 7"
definition DIR_END :: "block \<Rightarrow> int" where "DIR_END b = getint2 b 9"

definition SET_REVISION :: "block \<Rightarrow> int \<Rightarrow> block" where "SET_REVISION b x = setint4 b 0 x"
definition SET_LEVEL :: "block \<Rightarrow> int \<Rightarrow> block" where "SET_LEVEL b x = setint1 b 4 x"
definition SET_MAX_FREE :: "block \<Rightarrow> int \<Rightarrow> block" where "SET_MAX_FREE b x = setint2 b 5 x"
definition SET_TOTAL_FREE :: "block \<Rightarrow> int \<Rightarrow> block" where "SET_TOTAL_FREE b x = setint2 b 7 x"
definition SET_DIR_END :: "block \<Rightarrow> int \<Rightarrow> block" where "SET_DIR_END b x = setint2 b 9 x"

definition getD :: "block \<Rightarrow> int \<Rightarrow> int" where "getD p c = getint2 p c"
definition setD :: "block \<Rightarrow> int \<Rightarrow> int \<Rightarrow> block" where "setD p c x = setint2 p c x"
definition getK :: "block \<Rightarrow> int \<Rightarrow> int" where "getK p c = getint1 p c"

section \<open>Errors\<close>

text \<open>
  Every exception the modelled code throws is a value. \<open>AssertionError\<close> is what a failed
  \<^verbatim>\<open>Assert\<close> raises in a build with assertions enabled; in a build without them an
  \<^verbatim>\<open>Assert\<close> is no code at all. The build option is the field \<open>assertions\<close> of the table.
  \<open>CursorOutOfRange\<close> is not an exception of the code: it stands for an access to the
  cursor array \<open>C\<close> at a level that is not below \<^verbatim>\<open>BTREE_CURSOR_LEVELS\<close>, which the C++
  code does not define.
\<close>

datatype error =
    DatabaseError string
  | DatabaseCorruptError string
  | DatabaseModifiedError string
  | DatabaseOpeningError string
  | UnimplementedError string
  | AssertionError
  | CursorOutOfRange

section \<open>Keys and items\<close>

text \<open>
  A \<^verbatim>\<open>Key_\<close> is a pointer to the \<open>K\<close> byte of an item; an \<^verbatim>\<open>Item_\<close> is a pointer to its \<open>I\<close>
  field. Both are a buffer and an offset into it.

  Modelled from the spec: the accessors of \<^verbatim>\<open>Key_\<close> and \<^verbatim>\<open>Item_base_\<close> are in
  \<^verbatim>\<open>flint_table.h\<close>, which is not among the sources. The layout is the one drawn in
  \<^verbatim>\<open>flint_table.cc\<close> and in the spec, \<open>I K key x C tag\<close>: \<open>I\<close> is the length of the whole
  item, \<open>K\<close> the length of \<open>K key x\<close>, \<open>x\<close> the component counter and \<open>C\<close> the number of
  components; in a branch block the tag is a 4-byte block number and follows \<open>x\<close>.
\<close>

record Key =
  k_mem :: block
  k_addr :: int

record Item =
  i_mem :: block
  i_addr :: int

definition Key_length :: "Key \<Rightarrow> int" where
  "Key_length k = getK (k_mem k) (k_addr k) - C2 - K1"

definition Key_at :: "Key \<Rightarrow> int \<Rightarrow> Byte" where
  "Key_at k i = k_mem k (k_addr k + i + K1)"

definition Item_at :: "block \<Rightarrow> int \<Rightarrow> Item" where
  "Item_at p c = \<lparr>i_mem = p, i_addr = getint2 p c\<rparr>"

definition Item_size :: "Item \<Rightarrow> int" where
  "Item_size it = getint2 (i_mem it) (i_addr it)"

definition Item_key :: "Item \<Rightarrow> Key" where
  "Item_key it = \<lparr>k_mem = i_mem it, k_addr = i_addr it + I2\<rparr>"

definition component_of :: "Item \<Rightarrow> int" where
  "component_of it = getint2 (i_mem it) (i_addr it + getK (i_mem it) (i_addr it + I2) + I2 - C2)"

definition components_of :: "Item \<Rightarrow> int" where
  "components_of it = getint2 (i_mem it) (i_addr it + getK (i_mem it) (i_addr it + I2) + I2)"

definition block_given_by :: "Item \<Rightarrow> uint4" where
  "block_given_by it = word_of_int (getint4 (i_mem it) (i_addr it + Item_size it - 4))"

text \<open>
  \<^verbatim>\<open>memcmp\<close> over \<open>n\<close> bytes, as its sign: bytes compare as unsigned values. The length
  argument of the C function is a \<^verbatim>\<open>size_t\<close>; the callers below pass a key length, which is
  not negative in a well-formed key.
\<close>

fun memcmp :: "block \<Rightarrow> int \<Rightarrow> block \<Rightarrow> int \<Rightarrow> nat \<Rightarrow> int" where
  "memcmp p a q b 0 = 0"
| "memcmp p a q b (Suc n) =
     (if p a = q b then memcmp p (a + 1) q (b + 1) n else if p a < q b then - 1 else 1)"

text \<open>\<^verbatim>\<open>Key_::operator<\<close> and \<^verbatim>\<open>Key_::operator==\<close>, from \<^verbatim>\<open>flint_table.cc\<close>.\<close>

definition Key_lt :: "Key \<Rightarrow> Key \<Rightarrow> bool" where
  "Key_lt key1 key2 =
     (let key1_len = Key_length key1; key2_len = Key_length key2 in
      if key1_len = key2_len
      then memcmp (k_mem key1) (k_addr key1 + K1) (k_mem key2) (k_addr key2 + K1)
             (nat (key1_len + C2)) < 0
      else
        let k_smaller = (if key2_len < key1_len then key2_len else key1_len);
            diff = memcmp (k_mem key1) (k_addr key1 + K1) (k_mem key2) (k_addr key2 + K1)
                     (nat k_smaller)
        in if diff \<noteq> 0 then diff < 0 else key1_len < key2_len)"

definition Key_eq :: "Key \<Rightarrow> Key \<Rightarrow> bool" where
  "Key_eq key1 key2 =
     (let key1_len = Key_length key1 in
      if key1_len \<noteq> Key_length key2 then False
      else memcmp (k_mem key1) (k_addr key1 + K1) (k_mem key2) (k_addr key2 + K1)
             (nat (key1_len + C2)) = 0)"

text \<open>Modelled from the spec: \<^verbatim>\<open>operator<=\<close> of \<^verbatim>\<open>flint_table.h\<close>, the negation of the
  converse \<^verbatim>\<open>operator<\<close>.\<close>

definition Key_le :: "Key \<Rightarrow> Key \<Rightarrow> bool" where
  "Key_le key1 key2 = (\<not> Key_lt key2 key1)"

section \<open>Separator keys\<close>

text \<open>
  \<^verbatim>\<open>FlintTable::enter_key(j, prevkey, newkey)\<close> builds in a local buffer \<open>b\<close> the item that
  separates two blocks of level \<open>j - 1\<close> and adds it to the block at level \<open>j\<close>. The loop
  that compares the two keys byte by byte is \<open>common_prefix\<close>; \<open>truncate_size\<close> is the
  length \<open>i\<close> the function hands to \<^verbatim>\<open>set_key_and_block\<close>.
\<close>

function common_prefix :: "Key \<Rightarrow> Key \<Rightarrow> int \<Rightarrow> int \<Rightarrow> int" where
  "common_prefix prevkey newkey min_len i =
     (if i < min_len \<and> Key_at prevkey i = Key_at newkey i
      then common_prefix prevkey newkey min_len (i + 1) else i)"
  by pat_completeness auto
termination
  by (relation "measure (\<lambda>(prevkey, newkey, min_len, i). nat (min_len - i))") auto

declare common_prefix.simps [simp del]

definition truncate_size :: "int \<Rightarrow> Key \<Rightarrow> Key \<Rightarrow> int" where
  "truncate_size j prevkey newkey =
     (let newkey_len = Key_length newkey in
      if j = 1 then
        let min_len = min newkey_len (Key_length prevkey);
            i = common_prefix prevkey newkey min_len 0
        in (if i < newkey_len then i + 1 else i)
      else newkey_len)"

text \<open>
  Modelled from the spec: \<^verbatim>\<open>Item_wr_::set_key_and_block(newkey, truncate_size, n)\<close> of
  \<^verbatim>\<open>flint_table.h\<close> writes, at the start of the buffer, an item whose key is the first
  \<open>truncate_size\<close> bytes of \<open>newkey\<close> followed by the counter of \<open>newkey\<close>, and whose tag is
  the block number \<open>n\<close>.
\<close>

definition set_key_and_block :: "block \<Rightarrow> Key \<Rightarrow> int \<Rightarrow> uint4 \<Rightarrow> block" where
  "set_key_and_block b newkey i n =
     (let newkey_len = Key_length newkey;
          newsize = I2 + K1 + i + C2;
          b1 = setint2 b 0 (newsize + 4);
          b2 = setint1 b1 I2 (newsize - I2);
          b3 = memmove b2 (I2 + K1) (k_mem newkey) (k_addr newkey + K1) i;
          b4 = memmove b3 (I2 + K1 + i) (k_mem newkey) (k_addr newkey + K1 + newkey_len) C2
      in setint4 b4 newsize (uint n))"

text \<open>The item \<^verbatim>\<open>enter_key\<close> forms for the block at level \<open>j\<close>.\<close>

definition enter_key_item :: "block \<Rightarrow> int \<Rightarrow> Key \<Rightarrow> Key \<Rightarrow> uint4 \<Rightarrow> Item" where
  "enter_key_item b j prevkey newkey blocknumber =
     \<lparr>i_mem = set_key_and_block b newkey (truncate_size j prevkey newkey) blocknumber,
      i_addr = 0\<rparr>"

text \<open>
  The key of an item as a value: the bytes of its body and its component counter. These
  two functions are not part of the program; the properties below are stated with them.
\<close>

definition Key_body :: "Key \<Rightarrow> Byte list" where
  "Key_body k = map (\<lambda>i. Key_at k (int i)) [0..<nat (Key_length k)]"


text \<open>The \<open>n\<close> bytes of a buffer from offset \<open>a\<close>, as a list (used to state properties).\<close>

definition bytes :: "block \<Rightarrow> int \<Rightarrow> nat \<Rightarrow> Byte list" where
  "bytes p a n = map (\<lambda>i. p (a + int i)) [0..<n]"





section \<open>The table and its cursor\<close>

text \<open>
  One level of a cursor (\<^verbatim>\<open>Cursor_\<close>): the block buffer it owns, the directory offset \<open>c\<close>,
  the number \<open>n\<close> of the block in the buffer, and the \<^verbatim>\<open>rewrite\<close> flag. A cursor is the
  array \<open>C[0 .. BTREE_CURSOR_LEVELS - 1]\<close>, a function from the level.
\<close>

record Cursor =
  C_p :: block
  C_c :: int
  C_n :: uint4
  C_rewrite :: bool

type_synonym cursor = "int \<Rightarrow> Cursor"

text \<open>
  Modelled from the spec: \<^verbatim>\<open>FlintTable_base\<close> (\<^verbatim>\<open>flint_btreebase.h\<close>) is not among the
  sources. The spec (4.1) gives it two bitmaps, the state at the start of the transaction
  and the state now; bit \<open>n\<close> is set when block \<open>n\<close> is in use, and a block beyond the end of
  a bitmap is free. \<open>next_free_block\<close> returns the lowest free block and marks it used,
  \<open>free_block\<close> clears the bit in the current bitmap only, \<open>block_free_at_start\<close> reads the
  initial bitmap, and committing the bitmap copies the current one over the initial one.
\<close>

record FlintTable_base =
  b_revision :: uint4
  b_block_size :: uint4
  b_root :: uint4
  b_level :: int
  b_item_count :: uint4
  b_have_fakeroot :: bool
  b_sequential :: bool
  bit_map0 :: "bool list"
  bit_map :: "bool list"

definition block_free_at_start :: "FlintTable_base \<Rightarrow> uint4 \<Rightarrow> bool" where
  "block_free_at_start b n = (\<not> (unat n < length (bit_map0 b) \<and> bit_map0 b ! unat n))"

definition free_block :: "FlintTable_base \<Rightarrow> uint4 \<Rightarrow> FlintTable_base" where
  "free_block b n = b\<lparr>bit_map := (bit_map b)[unat n := False]\<rparr>"

fun first_free :: "bool list \<Rightarrow> nat" where
  "first_free [] = 0"
| "first_free (x # xs) = (if x then Suc (first_free xs) else 0)"

definition next_free_block :: "FlintTable_base \<Rightarrow> uint4 \<times> FlintTable_base" where
  "next_free_block b =
     (let k = first_free (bit_map b) in
      (of_nat k,
       b\<lparr>bit_map := (if k < length (bit_map b) then (bit_map b)[k := True]
                       else bit_map b @ [True])\<rparr>))"

definition clear_bit_map :: "FlintTable_base \<Rightarrow> FlintTable_base" where
  "clear_bit_map b = b\<lparr>bit_map := replicate (length (bit_map b)) False\<rparr>"

definition base_commit :: "FlintTable_base \<Rightarrow> FlintTable_base" where
  "base_commit b = b\<lparr>bit_map0 := bit_map b\<rparr>"

text \<open>
  The members of \<^verbatim>\<open>FlintTable\<close> that the modelled functions use, and what stands for the
  outside world: \<open>disk\<close> is the file \<^verbatim>\<open>DB\<close> (\<open>None\<close> for a block beyond the end of the file),
  \<open>write_ok\<close> tells whether \<^verbatim>\<open>pwrite\<close> succeeds on a block, and \<open>assertions\<close> whether the
  build evaluates \<^verbatim>\<open>Assert\<close>. \<open>kt\<close> is the buffer of the item under construction (the item
  starts at offset 0). Block buffers are values: a freed buffer keeps its contents, which
  the code does not read again.
\<close>

record table =
  revision_number :: uint4
  item_count :: uint4
  block_size :: uint4
  latest_revision_number :: uint4
  both_bases :: bool
  base_letter :: char
  faked_root_block :: bool
  sequential :: bool
  handle :: int
  level :: int
  root :: uint4
  kt :: block
  buffer :: block
  base :: FlintTable_base
  seq_count :: int
  changed_n :: uint4
  changed_c :: int
  max_item_size :: int
  Btree_modified :: bool
  full_compaction :: bool
  writable :: bool
  cursor_created_since_last_modification :: bool
  cursor_version :: uint4
  split_p :: block
  compress_strategy :: int
  C :: cursor
  disk :: "uint4 \<Rightarrow> block option"
  write_ok :: "uint4 \<Rightarrow> bool"
  assertions :: bool

definition Assert :: "bool \<Rightarrow> bool \<Rightarrow> error + 'a \<Rightarrow> error + 'a" where
  "Assert enabled b k = (if enabled \<and> \<not> b then Inl AssertionError else k)"

text \<open>
  \<^verbatim>\<open>read_block\<close> and \<^verbatim>\<open>write_block\<close>. The text of a message leaves out the block number and
  the text of \<^verbatim>\<open>errno\<close>. The first write of a transaction deletes the other base file.
\<close>

definition read_block :: "table \<Rightarrow> uint4 \<Rightarrow> error + block" where
  "read_block t n =
     (case disk t n of
        None \<Rightarrow> Inl (DatabaseError ''Error reading block: got end of file'')
      | Some b \<Rightarrow> Inr b)"

definition write_block :: "table \<Rightarrow> uint4 \<Rightarrow> block \<Rightarrow> error + table" where
  "write_block t n p =
     Assert (assertions t) (writable t)
       (let t1 = (if both_bases t
                  then t\<lparr>both_bases := False, latest_revision_number := revision_number t\<rparr>
                  else t)
        in if write_ok t1 n then Inr (t1\<lparr>disk := (disk t1)(n \<mapsto> p)\<rparr>)
           else Inl (DatabaseError ''Error writing block''))"

definition set_overwritten :: "table \<Rightarrow> error" where
  "set_overwritten t =
     (if writable t
      then DatabaseCorruptError ''Db block overwritten - are there multiple writers?''
      else DatabaseModifiedError ''The revision being read has been discarded'')"

text \<open>
  \<^verbatim>\<open>block_to_cursor(C_, j, n)\<close>. \<open>Cu\<close> is the cursor \<^verbatim>\<open>C_\<close> the caller passes, \<open>C t\<close> the
  built-in cursor of the table; when the caller passes the built-in cursor, it stores the
  returned cursor back into the table (\<open>block_to_cursor_C\<close>). The test
  \<^verbatim>\<open>n == C[j].n\<close> reads a level of the built-in cursor that the function has not changed
  yet. The check \<^verbatim>\<open>Assert(C == C_)\<close> compares two pointers and is not modelled.
\<close>

definition block_to_cursor :: "table \<Rightarrow> cursor \<Rightarrow> int \<Rightarrow> uint4 \<Rightarrow> error + (table \<times> cursor)" where
  "block_to_cursor t Cu j n =
     (if n = C_n (Cu j) then Inr (t, Cu)
      else
        (case (if C_rewrite (Cu j)
               then (case write_block t (C_n (Cu j)) (C_p (Cu j)) of
                       Inl e \<Rightarrow> Inl e
                     | Inr t1 \<Rightarrow> Inr (t1, Cu(j := (Cu j)\<lparr>C_rewrite := False\<rparr>)))
               else Inr (t, Cu)) of
           Inl e \<Rightarrow> Inl e
         | Inr (t1, Cu1) \<Rightarrow>
            (case (if writable t1 \<and> n = C_n (C t1 j) then Inr (C_p (C t1 j))
                   else read_block t1 n) of
               Inl e \<Rightarrow> Inl e
             | Inr p \<Rightarrow>
                (let Cu2 = Cu1(j := (Cu1 j)\<lparr>C_p := p, C_n := n\<rparr>) in
                 if j < level t1 \<and> REVISION p > REVISION (C_p (Cu2 (j + 1)))
                 then Inl (set_overwritten t1)
                 else Assert (assertions t1) (j = GET_LEVEL p) (Inr (t1, Cu2))))))"

definition block_to_cursor_C :: "table \<Rightarrow> int \<Rightarrow> uint4 \<Rightarrow> error + table" where
  "block_to_cursor_C t j n =
     (case block_to_cursor t (C t) j n of
        Inl e \<Rightarrow> Inl e
      | Inr (t1, Cu) \<Rightarrow> Inr (t1\<lparr>C := Cu\<rparr>))"

text \<open>
  The constructor \<^verbatim>\<open>FlintTable::FlintTable\<close>, with the outside world as further arguments.
  The members for the table's name and path, the two zlib streams and \<^verbatim>\<open>lazy\<close> are not
  part of the record.

  Modelled from the spec: the constructors of \<^verbatim>\<open>Cursor_\<close> and \<^verbatim>\<open>FlintTable_base\<close> are not
  among the sources. A fresh cursor level is what \<^verbatim>\<open>commit\<close> resets a level to
  (\<open>n = BLK_UNUSED\<close>, \<open>c = -1\<close>, \<open>rewrite = false\<close>); a fresh base is empty.
\<close>

definition Cursor_new :: Cursor where
  "Cursor_new = \<lparr>C_p = (\<lambda>_. 0), C_c = - 1, C_n = BLK_UNUSED, C_rewrite = False\<rparr>"

definition FlintTable_base_new :: FlintTable_base where
  "FlintTable_base_new =
     \<lparr>b_revision = 0, b_block_size = 0, b_root = 0, b_level = 0, b_item_count = 0,
      b_have_fakeroot = False, b_sequential = False, bit_map0 = [], bit_map = []\<rparr>"

definition FlintTable_new ::
  "bool \<Rightarrow> int \<Rightarrow> (uint4 \<Rightarrow> block option) \<Rightarrow> (uint4 \<Rightarrow> bool) \<Rightarrow> bool \<Rightarrow> table" where
  "FlintTable_new readonly strategy dsk wok asserts =
     \<lparr>revision_number = 0, item_count = 0, block_size = 0, latest_revision_number = 0,
      both_bases = False, base_letter = CHR ''A'', faked_root_block = True, sequential = True,
      handle = - 1, level = 0, root = 0, kt = (\<lambda>_. 0), buffer = (\<lambda>_. 0),
      base = FlintTable_base_new, seq_count = 0, changed_n = 0, changed_c = 0,
      max_item_size = 0, Btree_modified = False, full_compaction = False,
      writable = (\<not> readonly), cursor_created_since_last_modification = False,
      cursor_version = 0, split_p = (\<lambda>_. 0), compress_strategy = strategy,
      C = (\<lambda>_. Cursor_new), disk = dsk, write_ok = wok, assertions = asserts\<rparr>"




section \<open>Search\<close>

text \<open>
  \<^verbatim>\<open>find_in_block(p, key, leaf, c)\<close>. The binary chop is the loop \<open>chop\<close>: with a directory
  whose end is not aligned with its start the loop of the source does not end, so the
  loop is a partial function and \<open>None\<close> stands for a search that does not return.
\<close>

partial_function (option) chop :: "block \<Rightarrow> Key \<Rightarrow> int \<Rightarrow> int \<Rightarrow> int option" where
  "chop p key i j =
     (if j - i > D2 then
        (let k = i + ((j - i) div (D2 * 2)) * D2 in
         if Key_lt key (Item_key (Item_at p k)) then chop p key i k else chop p key k j)
      else Some i)"

definition find_in_block :: "block \<Rightarrow> Key \<Rightarrow> bool \<Rightarrow> int \<Rightarrow> int option" where
  "find_in_block p key leaf c =
     (let i0 = (if leaf then DIR_START - D2 else DIR_START);
          j0 = DIR_END p
      in if c \<noteq> - 1 then
           (let i1 = (if c < j0 \<and> i0 < c \<and> Key_le (Item_key (Item_at p c)) key then c else i0);
                c1 = c + D2;
                j1 = (if c1 < j0 \<and> i1 < c1 \<and> Key_lt key (Item_key (Item_at p c1)) then c1 else j0)
            in chop p key i1 j1)
         else chop p key i0 j0)"

text \<open>
  \<^verbatim>\<open>find(C_)\<close> searches for the key of \<open>kt\<close>. \<open>find_loop\<close> is the descent from the root level
  to level 1. The result is the value returned, the table (a block may have been written
  back) and the cursor.
\<close>

function find_loop :: "table \<Rightarrow> cursor \<Rightarrow> Key \<Rightarrow> int \<Rightarrow> (error + table \<times> cursor) option" where
  "find_loop t Cu key j =
     (if j > 0 then
        (let p = C_p (Cu j) in
         case find_in_block p key False (C_c (Cu j)) of
           None \<Rightarrow> None
         | Some c \<Rightarrow>
            (let Cu1 = Cu(j := (Cu j)\<lparr>C_c := c\<rparr>) in
             case block_to_cursor t Cu1 (j - 1) (block_given_by (Item_at p c)) of
               Inl e \<Rightarrow> Some (Inl e)
             | Inr (t1, Cu2) \<Rightarrow> find_loop t1 Cu2 key (j - 1)))
      else Some (Inr (t, Cu)))"
  by pat_completeness auto
termination
  by (relation "measure (\<lambda>(t, Cu, key, j). nat j)") auto

declare find_loop.simps [simp del]

definition kt_key :: "table \<Rightarrow> Key" where
  "kt_key t = \<lparr>k_mem = kt t, k_addr = I2\<rparr>"

definition find_C :: "table \<Rightarrow> cursor \<Rightarrow> (error + bool \<times> table \<times> cursor) option" where
  "find_C t Cu =
     (let key = kt_key t in
      case find_loop t Cu key (level t) of
        None \<Rightarrow> None
      | Some (Inl e) \<Rightarrow> Some (Inl e)
      | Some (Inr (t1, Cu1)) \<Rightarrow>
         (let p = C_p (Cu1 0) in
          case find_in_block p key True (C_c (Cu1 0)) of
            None \<Rightarrow> None
          | Some c \<Rightarrow>
             (let Cu2 = Cu1(0 := (Cu1 0)\<lparr>C_c := c\<rparr>) in
              if c < DIR_START then Some (Inr (False, t1, Cu2))
              else Some (Inr (Key_eq (Item_key (Item_at p c)) key, t1, Cu2)))))"







text \<open>
  A tree for the examples about the search. The root (block 0, level 1) holds the null
  key, pointing to block 1, and the separator \<open>c\<close>, pointing to block 2. Leaf 1 holds the
  null item and the key \<open>a\<close>; leaf 2 holds the key \<open>cat\<close>. The cursor of \<open>ex_tree\<close> is on
  the key \<open>a\<close>, and the key to search for is \<open>cab\<close>. \<open>ex_tree_cat\<close> searches for \<open>cat\<close>.
\<close>

fun poke :: "block \<Rightarrow> int \<Rightarrow> Byte list \<Rightarrow> block" where
  "poke p a [] = p"
| "poke p a (x # xs) = poke (p(a := x)) (a + 1) xs"







section \<open>Opening the root, closing and committing\<close>

text \<open>
  Modelled from the spec: the writers of \<^verbatim>\<open>Item_wr_\<close> are in \<^verbatim>\<open>flint_table.h\<close>, which is not
  among the sources. An item is written at offset \<open>a\<close> of a buffer. The null item of a
  faked root is an item with an empty key, counter 1 of 1 component and an empty tag
  (7 bytes, as \<^verbatim>\<open>read_root\<close> reserves).
\<close>

definition set_key_len :: "block \<Rightarrow> int \<Rightarrow> int \<Rightarrow> block" where
  "set_key_len p a x = setint1 p (a + I2) x"

definition set_size :: "block \<Rightarrow> int \<Rightarrow> int \<Rightarrow> block" where
  "set_size p a l = setint2 p a l"

definition set_component_of :: "block \<Rightarrow> int \<Rightarrow> int \<Rightarrow> block" where
  "set_component_of p a i = setint2 p (a + getK p (a + I2) + I2 - C2) i"

definition set_components_of :: "block \<Rightarrow> int \<Rightarrow> int \<Rightarrow> block" where
  "set_components_of p a m = setint2 p (a + getK p (a + I2) + I2) m"

definition fake_root_item :: "block \<Rightarrow> int \<Rightarrow> block" where
  "fake_root_item p a =
     set_components_of (set_component_of (set_size (set_key_len p a (K1 + C2)) a (I2 + K1 + 2 * C2)) a 1) a 1"

definition memset0 :: "block \<Rightarrow> int \<Rightarrow> block" where
  "memset0 p l = (\<lambda>a. if 0 \<le> a \<and> a < l then 0 else p a)"

text \<open>\<^verbatim>\<open>FlintTable::read_root\<close>.\<close>

definition read_root :: "table \<Rightarrow> error + table" where
  "read_root t =
     (if faked_root_block t then
        (let bs = uint (block_size t);
             p0 = memset0 (C_p (C t 0)) bs;
             off = bs - I2 - K1 - C2 - C2;
             p1 = fake_root_item p0 off;
             p2 = setD p1 DIR_START off;
             p3 = SET_DIR_END p2 (DIR_START + D2);
             off1 = off - (DIR_START + D2);
             p4 = SET_MAX_FREE p3 off1;
             p5 = SET_TOTAL_FREE p4 off1;
             p6 = SET_LEVEL p5 0
         in if \<not> writable t
            then Inr (t\<lparr>C := (C t)(0 := (C t 0)\<lparr>C_p := SET_REVISION p6 0, C_n := 0\<rparr>)\<rparr>)
            else (let (n, b) = next_free_block (base t)
                  in Inr (t\<lparr>base := b,
                            C := (C t)(0 := (C t 0)
                                   \<lparr>C_p := SET_REVISION p6 (uint (latest_revision_number t + 1)),
                                    C_n := n\<rparr>)\<rparr>)))
      else
        (case block_to_cursor_C t (level t) (root t) of
           Inl e \<Rightarrow> Inl e
         | Inr t1 \<Rightarrow>
            if REVISION (C_p (C t1 (level t1))) > uint (revision_number t1)
            then Inl (set_overwritten t1) else Inr t1))"

text \<open>\<^verbatim>\<open>FlintTable::close(permanent)\<close>: the buffers it frees are not used afterwards.\<close>

definition close :: "table \<Rightarrow> bool \<Rightarrow> table" where
  "close t permanent =
     (let t1 = (if handle t \<ge> 0 then t\<lparr>handle := - 1\<rparr> else t)
      in if permanent then t1\<lparr>handle := - 2\<rparr> else t1)"

definition throw_database_closed :: error where
  "throw_database_closed = DatabaseError ''Database has been closed''"

text \<open>
  \<^verbatim>\<open>FlintTable::commit(revision, changes_fd, changes_tail)\<close>. What the file system answers
  is the argument \<open>env\<close>: whether \<^verbatim>\<open>io_sync\<close> succeeds, whether writing the base file
  succeeds, whether \<^verbatim>\<open>rename\<close> succeeds and, when it fails, whether the temporary file is
  already gone. The result is the table after the call and the exception thrown, if any.
  \<open>commit_try\<close> is the body of the \<^verbatim>\<open>try\<close> block; the handler closes the table and throws
  again.

  Modelled from the spec: \<^verbatim>\<open>other_base_letter\<close> (\<^verbatim>\<open>flint_table.h\<close>) gives the opposite
  letter, and \<^verbatim>\<open>FlintTable_base::write_to_file\<close> fails with a \<open>DatabaseError\<close>.
\<close>

record commit_env =
  sync_ok :: bool
  write_base_ok :: bool
  rename_ok :: bool
  tmp_gone :: bool

definition other_base_letter :: "table \<Rightarrow> char" where
  "other_base_letter t = (if base_letter t = CHR ''A'' then CHR ''B'' else CHR ''A'')"

definition commit_try :: "commit_env \<Rightarrow> table \<Rightarrow> uint4 \<Rightarrow> table \<times> error option" where
  "commit_try env t revision =
     (let b0 = (if faked_root_block t then clear_bit_map (base t) else base t);
          b1 = b0\<lparr>b_revision := revision, b_root := C_n (C t (level t)), b_level := level t,
                  b_item_count := item_count t, b_have_fakeroot := faked_root_block t,
                  b_sequential := sequential t\<rparr>;
          t1 = t\<lparr>base := b1, base_letter := other_base_letter t, both_bases := True,
                 latest_revision_number := revision, revision_number := revision,
                 root := C_n (C t (level t)), Btree_modified := False,
                 C := (\<lambda>i. if 0 \<le> i \<and> i < BTREE_CURSOR_LEVELS
                             then (C t i)\<lparr>C_n := BLK_UNUSED, C_c := - 1, C_rewrite := False\<rparr>
                             else C t i)\<rparr>
      in if \<not> sync_ok env
         then (t1\<lparr>handle := - 1\<rparr>,
               Some (DatabaseError ''Can't commit new revision - failed to flush DB to disk''))
         else if \<not> write_base_ok env
         then (t1, Some (DatabaseError ''Couldn't write base file''))
         else if \<not> rename_ok env \<and> \<not> tmp_gone env
         then (t1, Some (DatabaseError ''Couldn't update base file''))
         else
           (let t2 = t1\<lparr>base := base_commit (base t1)\<rparr> in
            case read_root t2 of
              Inl e \<Rightarrow> (t2, Some e)
            | Inr t3 \<Rightarrow>
               (t3\<lparr>changed_n := 0, changed_c := DIR_START, seq_count := SEQ_START_POINT\<rparr>,
                None)))"

definition commit :: "commit_env \<Rightarrow> table \<Rightarrow> uint4 \<Rightarrow> table \<times> error option" where
  "commit env t revision =
     (if assertions t \<and> \<not> writable t then (t, Some AssertionError)
      else if revision \<le> revision_number t
      then (t, Some (DatabaseError ''New revision too low''))
      else if handle t < 0 then
        (if handle t = - 2 then (t, Some throw_database_closed)
         else (t\<lparr>latest_revision_number := revision, revision_number := revision\<rparr>, None))
      else
        (case commit_try env t revision of
           (t1, Some e) \<Rightarrow> (close t1 False, Some e)
         | (t1, None) \<Rightarrow> (t1, None)))"

text \<open>A writable table at revision 5, for the examples about \<open>commit\<close>.\<close>

definition ex_writer :: table where
  "ex_writer = (FlintTable_new False 0 (\<lambda>_. None) (\<lambda>_. True) False)\<lparr>revision_number := 5\<rparr>"


section \<open>Blocks: compaction, mid point, adding an item\<close>

text \<open>
  \<^verbatim>\<open>FlintTable::compact(p)\<close> moves the items of \<open>p\<close> to the end of the block through the
  table's scratch buffer. Its arguments here are the block size, the scratch buffer and
  the block; it returns the block and the scratch buffer. \<open>compact_loop\<close> is the
  \<^verbatim>\<open>for\<close> loop. (The function begins with \<^verbatim>\<open>Assert(writable)\<close>.)
\<close>

function compact_loop :: "block \<Rightarrow> block \<Rightarrow> int \<Rightarrow> int \<Rightarrow> int \<Rightarrow> block \<times> block \<times> int" where
  "compact_loop p b e c dir_end =
     (if c < dir_end then
        (let item = Item_at p c;
             l = Item_size item;
             e1 = e - l;
             b1 = memmove b e1 (i_mem item) (i_addr item) l;
             p1 = setD p c e1
         in compact_loop p1 b1 e1 (c + D2) dir_end)
      else (p, b, e))"
  by pat_completeness auto
termination
  by (relation "measure (\<lambda>(p, b, e, c, dir_end). nat (dir_end - c))") (auto simp add: D2_def)

declare compact_loop.simps [simp del]

definition compact :: "int \<Rightarrow> block \<Rightarrow> block \<Rightarrow> block \<times> block" where
  "compact bs buf p =
     (let dir_end = DIR_END p;
          (p1, b1, e1) = compact_loop p buf bs DIR_START dir_end;
          p2 = memmove p1 e1 b1 e1 (bs - e1);
          e2 = e1 - dir_end;
          p3 = SET_TOTAL_FREE p2 e2
      in (SET_MAX_FREE p3 e2, b1))"

text \<open>
  \<^verbatim>\<open>FlintTable::mid_point(p)\<close>. Falling out of the loop is \<^verbatim>\<open>Assert(false)\<close> followed by
  \<^verbatim>\<open>return 0\<close>.
\<close>

function mid_point_loop :: "bool \<Rightarrow> block \<Rightarrow> int \<Rightarrow> int \<Rightarrow> int \<Rightarrow> int \<Rightarrow> error + int" where
  "mid_point_loop asserts p sz dir_end c n =
     (if c < dir_end then
        (let l = Item_size (Item_at p c);
             n1 = n + 2 * l
         in if n1 \<ge> sz then (if l < n1 - sz then Inr c else Inr (c + D2))
            else mid_point_loop asserts p sz dir_end (c + D2) n1)
      else Assert asserts False (Inr 0))"
  by pat_completeness auto
termination
  by (relation "measure (\<lambda>(asserts, p, sz, dir_end, c, n). nat (dir_end - c))")
     (auto simp add: D2_def)

declare mid_point_loop.simps [simp del]

definition mid_point :: "bool \<Rightarrow> int \<Rightarrow> block \<Rightarrow> error + int" where
  "mid_point asserts bs p =
     (let dir_end = DIR_END p;
          sz = bs - TOTAL_FREE p - dir_end
      in mid_point_loop asserts p sz dir_end DIR_START 0)"

text \<open>
  \<^verbatim>\<open>FlintTable::add_item_to_block(p, kt_, c)\<close>, with the block size, the scratch buffer
  and the build option as further arguments; it returns the block and the scratch buffer.
  (The function begins with \<^verbatim>\<open>Assert(writable)\<close>, which its caller \<^verbatim>\<open>add_item\<close> has
  checked.)
\<close>

definition add_item_to_block ::
  "bool \<Rightarrow> int \<Rightarrow> block \<Rightarrow> block \<Rightarrow> Item \<Rightarrow> int \<Rightarrow> error + block \<times> block" where
  "add_item_to_block asserts bs buf p kt_item c =
     (let dir_end = DIR_END p;
          kt_len = Item_size kt_item;
          needed = kt_len + D2;
          new_total = TOTAL_FREE p - needed;
          new_max = MAX_FREE p - needed
      in Assert asserts (new_total \<ge> 0)
          (let (p1, buf1) = (if new_max < 0 then compact bs buf p else (p, buf));
               new_max1 = (if new_max < 0 then MAX_FREE p1 - needed else new_max)
           in Assert asserts (new_max1 \<ge> 0)
               (Assert asserts (dir_end \<ge> c)
                 (let p2 = memmove p1 (c + D2) p1 c (dir_end - c);
                      dir_end1 = dir_end + D2;
                      p3 = SET_DIR_END p2 dir_end1;
                      off = dir_end1 + new_max1;
                      p4 = setD p3 c off;
                      p5 = memmove p4 off (i_mem kt_item) (i_addr kt_item) kt_len;
                      p6 = SET_MAX_FREE p5 new_max1
                  in Inr (SET_TOTAL_FREE p6 new_total, buf1)))))"

section \<open>Adding an item: splitting a block\<close>

text \<open>
  Modelled from the spec: \<^verbatim>\<open>Item_wr_::form_null_key(n)\<close> of \<^verbatim>\<open>flint_table.h\<close> writes at the
  item's address an item with a null key (\<open>K = K1\<close>) whose tag is the block number \<open>n\<close>; its
  length is \<open>I2 + K1 + 4\<close>, the 7 bytes that \<^verbatim>\<open>split_root\<close> says are exact.
\<close>

definition form_null_key :: "block \<Rightarrow> int \<Rightarrow> uint4 \<Rightarrow> block" where
  "form_null_key p a n =
     set_size (set_key_len (setint4 p (a + I2 + K1) (uint n)) a K1) a (I2 + K1 + 4)"

text \<open>
  The first part of the splitting branch of \<^verbatim>\<open>FlintTable::add_item(kt_, j)\<close>, from the
  choice of the split point \<open>m\<close> to the calls of \<^verbatim>\<open>add_item_to_block\<close>: what it computes
  is kept in a record, so that the properties of the split can be stated. \<open>sp_lower\<close> is
  \<^verbatim>\<open>split_p\<close>, \<open>sp_upper\<close> the block \<open>p\<close> of the cursor, \<open>sp_c\<close> and \<open>sp_n\<close> the local
  variables \<open>c\<close> and \<open>n\<close> after the branch, and \<open>sp_lower0\<close> and \<open>sp_upper0\<close> the two
  halves after their compaction, before the item is added to one of them.
\<close>

record split =
  sp_m :: int
  sp_split_n :: uint4
  sp_add_to_upper_half :: bool
  sp_lower0 :: block
  sp_upper0 :: block
  sp_lower :: block
  sp_upper :: block
  sp_c :: int
  sp_n :: uint4
  sp_table :: table

definition add_item_split :: "table \<Rightarrow> Item \<Rightarrow> int \<Rightarrow> error + split" where
  "add_item_split t kt_item j =
     (let p = C_p (C t j);
          c = C_c (C t j);
          bs = uint (block_size t);
          needed = Item_size kt_item + D2
      in case (if seq_count t < 0 then mid_point (assertions t) bs p else Inr c) of
           Inl e \<Rightarrow> Inl e
         | Inr m \<Rightarrow>
            (let split_n = C_n (C t j);
                 (n1, b1) = next_free_block (base t);
                 (lower0, buf1) =
                   compact bs (buffer t) (SET_DIR_END (memmove (split_p t) 0 p 0 bs) m);
                 residue = DIR_END p - m;
                 new_dir_end = DIR_START + residue;
                 p1 = SET_DIR_END (memmove p DIR_START p m residue) new_dir_end;
                 (upper0, buf2) = compact bs buf1 p1;
                 add_to_upper_half =
                   (if seq_count t < 0 then c \<ge> m else TOTAL_FREE lower0 < needed)
             in if add_to_upper_half then
                  (let c1 = c - (m - DIR_START) in
                   Assert (assertions t) (seq_count t < 0 \<or> c1 \<le> DIR_START + D2)
                    (Assert (assertions t) (c1 \<ge> DIR_START)
                      (Assert (assertions t) (c1 \<le> DIR_END upper0)
                        (case add_item_to_block (assertions t) bs buf2 upper0 kt_item c1 of
                           Inl e \<Rightarrow> Inl e
                         | Inr (upper, buf3) \<Rightarrow>
                            Inr \<lparr>sp_m = m, sp_split_n = split_n, sp_add_to_upper_half = True,
                                 sp_lower0 = lower0, sp_upper0 = upper0,
                                 sp_lower = lower0, sp_upper = upper,
                                 sp_c = c1, sp_n = n1,
                                 sp_table = t\<lparr>base := b1, buffer := buf3, split_p := lower0,
                                   C := (C t)(j := (C t j)\<lparr>C_p := upper, C_n := n1\<rparr>)\<rparr>\<rparr>))))
                else
                  Assert (assertions t) (c \<ge> DIR_START)
                    (Assert (assertions t) (c \<le> DIR_END lower0)
                      (case add_item_to_block (assertions t) bs buf2 lower0 kt_item c of
                         Inl e \<Rightarrow> Inl e
                       | Inr (lower, buf3) \<Rightarrow>
                          Inr \<lparr>sp_m = m, sp_split_n = split_n, sp_add_to_upper_half = False,
                               sp_lower0 = lower0, sp_upper0 = upper0,
                               sp_lower = lower, sp_upper = upper0,
                               sp_c = c, sp_n = split_n,
                               sp_table = t\<lparr>base := b1, buffer := buf3, split_p := lower,
                                 C := (C t)(j := (C t j)\<lparr>C_p := upper0, C_n := n1\<rparr>)\<rparr>\<rparr>))))"

text \<open>
  \<^verbatim>\<open>add_item\<close>, \<^verbatim>\<open>split_root\<close> and \<^verbatim>\<open>enter_key\<close> call one another: a split enters a
  separator one level up, which can split again, and a split of the root adds a level.
  A result \<open>None\<close> is a search (\<open>find_in_block\<close>) that does not return. In \<^verbatim>\<open>enter_key\<close>
  the key \<open>newkey\<close> points into the block at level \<open>j - 1\<close> of the cursor, and the null key
  that replaces it when \<open>j > 1\<close> is written into that block.
\<close>

function add_item :: "table \<Rightarrow> Item \<Rightarrow> int \<Rightarrow> (error + table) option"
  and split_root :: "table \<Rightarrow> uint4 \<Rightarrow> (error + table) option"
  and enter_key :: "table \<Rightarrow> int \<Rightarrow> Key \<Rightarrow> Key \<Rightarrow> (error + table) option"
where
  "add_item t kt_item j =
     (if assertions t \<and> \<not> writable t then Some (Inl AssertionError)
      else if \<not> (0 \<le> j \<and> j < BTREE_CURSOR_LEVELS) then Some (Inl CursorOutOfRange)
      else if TOTAL_FREE (C_p (C t j)) < Item_size kt_item + D2 then
        (case add_item_split t kt_item j of
           Inl e \<Rightarrow> Some (Inl e)
         | Inr sp \<Rightarrow>
            (case write_block (sp_table sp) (sp_split_n sp) (sp_lower sp) of
               Inl e \<Rightarrow> Some (Inl e)
             | Inr t1 \<Rightarrow>
                (case (if j = level t1 then split_root t1 (sp_split_n sp) else Some (Inr t1)) of
                   None \<Rightarrow> None
                 | Some (Inl e) \<Rightarrow> Some (Inl e)
                 | Some (Inr t2) \<Rightarrow>
                    (case enter_key t2 (j + 1)
                            (Item_key (Item_at (split_p t2) (DIR_END (split_p t2) - D2)))
                            (Item_key (Item_at (C_p (C t2 j)) DIR_START)) of
                       None \<Rightarrow> None
                     | Some (Inl e) \<Rightarrow> Some (Inl e)
                     | Some (Inr t3) \<Rightarrow>
                        Some (Inr (if j = 0
                                   then t3\<lparr>changed_n := sp_n sp, changed_c := sp_c sp\<rparr>
                                   else t3))))))
      else
        (case add_item_to_block (assertions t) (uint (block_size t)) (buffer t) (C_p (C t j))
                kt_item (C_c (C t j)) of
           Inl e \<Rightarrow> Some (Inl e)
         | Inr (p1, buf1) \<Rightarrow>
            (let t1 = t\<lparr>buffer := buf1, C := (C t)(j := (C t j)\<lparr>C_p := p1\<rparr>)\<rparr>
             in Some (Inr (if j = 0
                           then t1\<lparr>changed_n := C_n (C t j), changed_c := C_c (C t j)\<rparr>
                           else t1)))))"
| "split_root t split_n =
     (if level t + 1 = BTREE_CURSOR_LEVELS
      then Some (Inl (DatabaseCorruptError ''Btree has grown impossibly large''))
      else if \<not> (0 \<le> level t + 1 \<and> level t + 1 < BTREE_CURSOR_LEVELS)
      then Some (Inl CursorOutOfRange)
      else
        (let (n, b) = next_free_block (base t);
             q1 = SET_REVISION (\<lambda>_. 0) (uint (latest_revision_number t + 1));
             q2 = SET_LEVEL q1 (level t + 1);
             q3 = SET_DIR_END q2 DIR_START;
             (q4, buf1) = compact (uint (block_size t)) (buffer t) q3
         in add_item
              (t\<lparr>level := level t + 1, base := b, buffer := buf1,
                 C := (C t)(level t + 1 :=
                        \<lparr>C_p = q4, C_c = DIR_START, C_n = n, C_rewrite = True\<rparr>)\<rparr>)
              \<lparr>i_mem = form_null_key (\<lambda>_. 0) 0 split_n, i_addr = 0\<rparr>
              (level t + 1)))"
| "enter_key t j prevkey newkey =
     (if assertions t \<and> \<not> (writable t \<and> Key_lt prevkey newkey \<and> j \<ge> 1)
      then Some (Inl AssertionError)
      else if \<not> (1 \<le> j \<and> j < BTREE_CURSOR_LEVELS) then Some (Inl CursorOutOfRange)
      else
        (let blocknumber = C_n (C t (j - 1));
             newkey_len = Key_length newkey;
             i = truncate_size j prevkey newkey;
             item = enter_key_item (\<lambda>_. 0) j prevkey newkey blocknumber
         in if assertions t \<and> \<not> (i \<le> 256 - I2 - C2 \<and> i \<le> 255 + 6 - I2 - C2 - 4)
            then Some (Inl AssertionError)
            else
              (let t1 =
                 (if j > 1 then
                    (let p = C_p (C t (j - 1));
                         n = getint4 (k_mem newkey) (k_addr newkey + newkey_len + K1 + C2);
                         new_total_free = TOTAL_FREE p + newkey_len + C2;
                         p1 = form_null_key p (k_addr newkey - I2) (word_of_int n)
                     in t\<lparr>C := (C t)(j - 1 :=
                              (C t (j - 1))\<lparr>C_p := SET_TOTAL_FREE p1 new_total_free\<rparr>)\<rparr>)
                  else t)
               in case find_in_block (C_p (C t1 j)) (Item_key item) False 0 of
                    None \<Rightarrow> None
                  | Some r \<Rightarrow>
                     add_item
                       (t1\<lparr>C := (C t1)(j := (C t1 j)\<lparr>C_c := r + D2, C_rewrite := True\<rparr>)\<rparr>)
                       item j)))"
  by pat_completeness auto
termination
  by (relation "measure (\<lambda>x. case x of
          Inl (t, kt_item, j) \<Rightarrow> 3 * nat (BTREE_CURSOR_LEVELS - j) + 2
        | Inr (Inl (t, split_n)) \<Rightarrow> 3 * nat (BTREE_CURSOR_LEVELS - level t) + 1
        | Inr (Inr (t, j, prevkey, newkey)) \<Rightarrow> 3 * nat (BTREE_CURSOR_LEVELS - j) + 3)")
     (auto simp add: BTREE_CURSOR_LEVELS_def)

declare add_item.simps [simp del] split_root.simps [simp del] enter_key.simps [simp del]

section \<open>The items of a block\<close>












section \<open>Compression of a tag\<close>

text \<open>
  The stage of \<^verbatim>\<open>FlintTable::add\<close> that decides whether the tag is stored compressed
  (the lines from \<^verbatim>\<open>bool compressed = false;\<close> to the end of the \<^verbatim>\<open>else if\<close> block).

  zlib is an external library. Its raw deflate is the parameter \<open>z\<close>: \<open>z strategy input\<close> is
  the complete compressed stream. \<open>deflate_finish\<close> is zlib's contract for
  \<^verbatim>\<open>deflate(stream, Z_FINISH)\<close> with \<open>avail_out\<close> bytes of output space: it returns
  \<^verbatim>\<open>Z_STREAM_END\<close> and the whole stream when the stream fits, and otherwise another code
  with the part that fits. \<^verbatim>\<open>lazy_alloc_deflate_zstream\<close> allocates or resets the stream
  and can fail; its outcome is the parameter \<open>init\<close>, and \<open>zs\<close> tells whether the table
  holds a deflate stream (\<^verbatim>\<open>deflate_zstream != NULL\<close>). \<^verbatim>\<open>DONT_COMPRESS\<close> is a constant of
  \<^verbatim>\<open>flint_table.h\<close>, which is not among the sources: it is the parameter \<open>dont\<close>.
\<close>

definition Z_OK :: int where "Z_OK = 0"
definition Z_STREAM_END :: int where "Z_STREAM_END = 1"

definition deflate_finish :: "(Byte list \<Rightarrow> Byte list) \<Rightarrow> Byte list \<Rightarrow> nat \<Rightarrow> int \<times> Byte list" where
  "deflate_finish zf input avail_out =
     (let out = zf input in
      if length out \<le> avail_out then (Z_STREAM_END, out) else (Z_OK, take avail_out out))"

record compress_result =
  cr_tag :: "Byte list"
  cr_compressed :: bool
  cr_zstream :: bool

definition add_compress ::
  "(int \<Rightarrow> Byte list \<Rightarrow> Byte list) \<Rightarrow> error option \<Rightarrow> int \<Rightarrow> int \<Rightarrow> bool \<Rightarrow> bool \<Rightarrow>
   Byte list \<Rightarrow> error + compress_result" where
  "add_compress z init dont strategy zs already_compressed tag =
     (if already_compressed
      then Inr \<lparr>cr_tag = tag, cr_compressed = True, cr_zstream = zs\<rparr>
      else if strategy \<noteq> dont \<and> length tag > COMPRESS_MIN then
        (case init of
           Some e \<Rightarrow> Inl e
         | None \<Rightarrow>
            let blk_len = length tag - 1;
                (err, blk) = deflate_finish (z strategy) tag blk_len
            in if err = Z_STREAM_END
               then Inr \<lparr>cr_tag = blk, cr_compressed = True, cr_zstream = True\<rparr>
               else Inr \<lparr>cr_tag = tag, cr_compressed = False, cr_zstream = True\<rparr>)
      else Inr \<lparr>cr_tag = tag, cr_compressed = False, cr_zstream = zs\<rparr>)"

section \<open>Block size\<close>

text \<open>
  \<^verbatim>\<open>FlintTable::set_block_size\<close>. The argument and the stored block size are
  \<^verbatim>\<open>unsigned int\<close>. \<^verbatim>\<open>FLINT_DEFAULT_BLOCK_SIZE\<close> is a constant of \<^verbatim>\<open>flint_table.h\<close>, which is
  not among the sources: it is the parameter \<open>dflt\<close>. The function returns the value it
  assigns to the member \<^verbatim>\<open>block_size\<close>.
\<close>

definition set_block_size :: "uint4 \<Rightarrow> uint4 \<Rightarrow> uint4" where
  "set_block_size dflt bs =
     (if bs < 2048 \<or> bs > word_of_int BYTE_PAIR_RANGE \<or>
         (bs AND (bs - 1)) \<noteq> 0
      then dflt else bs)"


section \<open>Adding and deleting an entry\<close>

text \<open>
  Modelled from the spec: \<^verbatim>\<open>Item_wr_::form_key\<close>, \<^verbatim>\<open>Item_wr_::set_tag\<close> and
  \<^verbatim>\<open>Item_wr_::set_block_given_by\<close> are in \<^verbatim>\<open>flint_table.h\<close>, which is not among the sources.
  \<open>form_key\<close> fills in the key part of the item under construction, with counter 1; a key
  longer than \<^verbatim>\<open>FLINT_BTREE_MAX_KEY_LEN\<close> raises the \<open>unimplemented\<close> fault. \<open>set_tag\<close> copies
  \<open>l\<close> bytes of the tag from offset \<open>off\<close> behind the \<open>cd\<close> bytes of header and key, sets the
  item's size and flags a compressed tag in the high bit of the component total.
  \<open>set_block_given_by\<close> writes a block number into the last four bytes of an item.
  A key or a tag is a list of bytes.
\<close>

definition form_key :: "block \<Rightarrow> Byte list \<Rightarrow> error + block" where
  "form_key b key =
     (if length key > FLINT_BTREE_MAX_KEY_LEN
      then Inl (UnimplementedError ''Key too long'')
      else Inr (set_component_of
                  (poke (set_key_len b 0 (int (length key) + K1 + C2)) (I2 + K1) key) 0 1))"

definition tag_byte :: "Byte list \<Rightarrow> block" where
  "tag_byte tag = (\<lambda>a. if 0 \<le> a \<and> a < int (length tag) then tag ! nat a else 0)"

definition set_tag :: "block \<Rightarrow> int \<Rightarrow> Byte list \<Rightarrow> int \<Rightarrow> int \<Rightarrow> bool \<Rightarrow> block" where
  "set_tag b cd tag off l compressed =
     (let b1 = memmove b cd (tag_byte tag) off l;
          b2 = set_size b1 0 (cd + l);
          a = getK b2 I2 + I2
      in if compressed then b2(a := b2 a OR 128) else b2)"

definition set_block_given_by :: "block \<Rightarrow> int \<Rightarrow> uint4 \<Rightarrow> block" where
  "set_block_given_by p a n = setint4 p (a + getint2 p a - 4) (uint n)"

text \<open>
  \<^verbatim>\<open>FlintTable::alter()\<close>; \<open>alter_loop\<close> is its \<^verbatim>\<open>while (true)\<close> loop, which ends at the root
  level at the latest.
\<close>

function alter_loop :: "table \<Rightarrow> int \<Rightarrow> error + table" where
  "alter_loop t j =
     (if \<not> (0 \<le> j \<and> j < BTREE_CURSOR_LEVELS) then Inl CursorOutOfRange
      else if C_rewrite (C t j) then Inr t
      else
        (let p = C_p (C t j);
             n = C_n (C t j);
             t1 = t\<lparr>C := (C t)(j := (C t j)\<lparr>C_rewrite := True\<rparr>)\<rparr>
         in if block_free_at_start (base t1) n
            then if assertions t \<and> REVISION p \<noteq> uint (latest_revision_number t + 1)
                 then Inl AssertionError else Inr t1
            else if assertions t \<and> \<not> REVISION p < uint (latest_revision_number t + 1)
                 then Inl AssertionError
            else
              (let (n1, b1) = next_free_block (free_block (base t1) n);
                   p1 = SET_REVISION p (uint (latest_revision_number t + 1));
                   t2 = t1\<lparr>base := b1, C := (C t1)(j := (C t1 j)\<lparr>C_n := n1, C_p := p1\<rparr>)\<rparr>
               in if j = level t then Inr t2
                  else if \<not> j + 1 < BTREE_CURSOR_LEVELS then Inl CursorOutOfRange
                  else
                    (let q = C_p (C t2 (j + 1));
                         q1 = set_block_given_by q (getD q (C_c (C t2 (j + 1)))) n1
                     in alter_loop (t2\<lparr>C := (C t2)(j + 1 := (C t2 (j + 1))\<lparr>C_p := q1\<rparr>)\<rparr>)
                          (j + 1)))))"
  by pat_completeness auto

termination
  by (relation "measure (\<lambda>(t, j). nat (BTREE_CURSOR_LEVELS - j))") auto

declare alter_loop.simps [simp del]

definition alter :: "table \<Rightarrow> error + table" where
  "alter t = Assert (assertions t) (writable t) (alter_loop t 0)"

text \<open>
  \<^verbatim>\<open>FlintTable::delete_item(j, repeatedly)\<close>. \<open>lose_levels\<close> is its \<^verbatim>\<open>while\<close> loop, which
  removes a root block that holds a single item; \<open>p\<close> and \<open>dir_end\<close> are the local variables
  of that name.
\<close>

lemma block_to_cursor_C_level:
  "block_to_cursor_C t j n = Inr t1 \<Longrightarrow> level t1 = level t"
  by (auto simp add: block_to_cursor_C_def block_to_cursor_def write_block_def Assert_def Let_def
           split: sum.splits if_splits prod.splits)

function lose_levels :: "table \<Rightarrow> block \<Rightarrow> int \<Rightarrow> error + table" where
  "lose_levels t p dir_end =
     (if dir_end = DIR_START + D2 \<and> level t > 0 then
        (if \<not> level t < BTREE_CURSOR_LEVELS then Inl CursorOutOfRange
         else
           (let new_root = block_given_by (Item_at p DIR_START);
                t1 = t\<lparr>base := free_block (base t) (C_n (C t (level t))),
                       C := (C t)(level t :=
                              (C t (level t))\<lparr>C_rewrite := False, C_n := BLK_UNUSED\<rparr>),
                       level := level t - 1\<rparr>
            in case block_to_cursor_C t1 (level t1) new_root of
                 Inl e \<Rightarrow> Inl e
               | Inr t2 \<Rightarrow>
                  lose_levels t2 (C_p (C t2 (level t2))) (DIR_END (C_p (C t2 (level t2))))))
      else Inr t)"
  by pat_completeness auto

termination
  by (relation "measure (\<lambda>(t, p, dir_end). nat (level t))")
     (auto dest!: block_to_cursor_C_level)

declare lose_levels.simps [simp del]

function delete_item :: "table \<Rightarrow> int \<Rightarrow> bool \<Rightarrow> error + table" where
  "delete_item t j repeatedly =
     (if assertions t \<and> \<not> writable t then Inl AssertionError
      else if \<not> (0 \<le> j \<and> j < BTREE_CURSOR_LEVELS) then Inl CursorOutOfRange
      else
        (let p = C_p (C t j);
             c = C_c (C t j);
             kt_len = Item_size (Item_at p c);
             dir_end = DIR_END p - D2;
             p1 = memmove p c p (c + D2) (dir_end - c);
             p2 = SET_DIR_END p1 dir_end;
             p3 = SET_MAX_FREE p2 (MAX_FREE p2 + D2);
             p4 = SET_TOTAL_FREE p3 (TOTAL_FREE p3 + kt_len + D2);
             t1 = t\<lparr>C := (C t)(j := (C t j)\<lparr>C_p := p4\<rparr>)\<rparr>
         in if \<not> repeatedly then Inr t1
            else if j < level t then
              (if dir_end = DIR_START then
                 (if \<not> j + 1 < BTREE_CURSOR_LEVELS then Inl CursorOutOfRange
                  else
                    delete_item
                      (t1\<lparr>base := free_block (base t1) (C_n (C t1 j)),
                          C := (C t1)(j := (C t1 j)\<lparr>C_rewrite := False, C_n := BLK_UNUSED\<rparr>,
                                      j + 1 := (C t1 (j + 1))\<lparr>C_rewrite := True\<rparr>)\<rparr>)
                      (j + 1) True)
               else Inr t1)
            else if assertions t \<and> j \<noteq> level t then Inl AssertionError
            else lose_levels t1 p4 dir_end))"
  by pat_completeness auto

termination
  by (relation "measure (\<lambda>(t, j, repeatedly). nat (BTREE_CURSOR_LEVELS - j))") auto

declare delete_item.simps [simp del]

text \<open>
  \<^verbatim>\<open>find(C)\<close> on the built-in cursor, \<^verbatim>\<open>delete_kt()\<close> and \<^verbatim>\<open>add_kt(found)\<close>. The item under
  construction \<open>kt\<close> starts at offset 0 of its buffer.
\<close>

definition find_own :: "table \<Rightarrow> (error + bool \<times> table) option" where
  "find_own t =
     (case find_C t (C t) of
        None \<Rightarrow> None
      | Some (Inl e) \<Rightarrow> Some (Inl e)
      | Some (Inr (found, t1, Cu)) \<Rightarrow> Some (Inr (found, t1\<lparr>C := Cu\<rparr>)))"

definition delete_kt :: "table \<Rightarrow> (error + int \<times> table) option" where
  "delete_kt t =
     (if assertions t \<and> \<not> writable t then Some (Inl AssertionError)
      else case find_own t of
        None \<Rightarrow> None
      | Some (Inl e) \<Rightarrow> Some (Inl e)
      | Some (Inr (found, t1)) \<Rightarrow>
         (let t2 = t1\<lparr>seq_count := SEQ_START_POINT, sequential := False\<rparr> in
          if found then
            (let components = components_of (Item_at (C_p (C t2 0)) (C_c (C t2 0))) in
             case alter t2 of
               Inl e \<Rightarrow> Some (Inl e)
             | Inr t3 \<Rightarrow>
                (case delete_item t3 0 True of
                   Inl e \<Rightarrow> Some (Inl e)
                 | Inr t4 \<Rightarrow> Some (Inr (components, t4))))
          else Some (Inr (0, t2))))"

definition item_kt :: "table \<Rightarrow> Item" where
  "item_kt t = \<lparr>i_mem = kt t, i_addr = 0\<rparr>"

definition add_kt :: "table \<Rightarrow> bool \<Rightarrow> (error + int \<times> table) option" where
  "add_kt t found =
     (if assertions t \<and> \<not> writable t then Some (Inl AssertionError)
      else case alter t of
        Inl e \<Rightarrow> Some (Inl e)
      | Inr t1 \<Rightarrow>
         if found then
           (let t2 = t1\<lparr>seq_count := SEQ_START_POINT, sequential := False\<rparr>;
                p = C_p (C t2 0);
                c = C_c (C t2 0);
                item = Item_at p c;
                kt_size = Item_size (item_kt t2);
                needed = kt_size - Item_size item;
                components = components_of (Item_at p c)
            in if needed \<le> 0 then
                 (let p1 = memmove p (i_addr item) (kt t2) 0 kt_size;
                      p2 = SET_TOTAL_FREE p1 (TOTAL_FREE p1 - needed)
                  in Some (Inr (components, t2\<lparr>C := (C t2)(0 := (C t2 0)\<lparr>C_p := p2\<rparr>)\<rparr>)))
               else
                 (let new_max = MAX_FREE p - kt_size in
                  if new_max \<ge> 0 then
                    (let off = DIR_END p + new_max;
                         p1 = memmove p off (kt t2) 0 kt_size;
                         p2 = setD p1 c off;
                         p3 = SET_MAX_FREE p2 new_max;
                         p4 = SET_TOTAL_FREE p3 (TOTAL_FREE p3 - needed)
                     in Some (Inr (components, t2\<lparr>C := (C t2)(0 := (C t2 0)\<lparr>C_p := p4\<rparr>)\<rparr>)))
                  else
                    (case delete_item t2 0 False of
                       Inl e \<Rightarrow> Some (Inl e)
                     | Inr t3 \<Rightarrow>
                        (case add_item t3 (item_kt t3) 0 of
                           None \<Rightarrow> None
                         | Some (Inl e) \<Rightarrow> Some (Inl e)
                         | Some (Inr t4) \<Rightarrow> Some (Inr (components, t4))))))
         else
           (let t2 = (if changed_n t1 = C_n (C t1 0) \<and> changed_c t1 = C_c (C t1 0)
                      then (if seq_count t1 < 0 then t1\<lparr>seq_count := seq_count t1 + 1\<rparr> else t1)
                      else t1\<lparr>seq_count := SEQ_START_POINT, sequential := False\<rparr>);
                t3 = t2\<lparr>C := (C t2)(0 := (C t2 0)\<lparr>C_c := C_c (C t2 0) + D2\<rparr>)\<rparr>
            in case add_item t3 (item_kt t3) 0 of
                 None \<Rightarrow> None
               | Some (Inl e) \<Rightarrow> Some (Inl e)
               | Some (Inr t4) \<Rightarrow> Some (Inr (0, t4))))"

text \<open>
  \<^verbatim>\<open>FlintTable::del(key)\<close>. \<open>del_loop\<close> is the loop over the further components of the key
  (\<^verbatim>\<open>add\<close> has the same loop), \<open>del_formed\<close> the part of \<^verbatim>\<open>del\<close> that follows \<^verbatim>\<open>form_key\<close>.
  The result is the value returned and the table.
\<close>

function del_loop :: "table \<Rightarrow> int \<Rightarrow> int \<Rightarrow> (error + table) option" where
  "del_loop t i n =
     (if i \<le> n then
        (case delete_kt (t\<lparr>kt := set_component_of (kt t) 0 i\<rparr>) of
           None \<Rightarrow> None
         | Some (Inl e) \<Rightarrow> Some (Inl e)
         | Some (Inr (k, t1)) \<Rightarrow> del_loop t1 (i + 1) n)
      else Some (Inr t))"
  by pat_completeness auto

termination
  by (relation "measure (\<lambda>(t, i, n). nat (n + 1 - i))") auto

declare del_loop.simps [simp del]

definition modified :: "table \<Rightarrow> table" where
  "modified t =
     t\<lparr>Btree_modified := True,
       cursor_created_since_last_modification := False,
       cursor_version := (if cursor_created_since_last_modification t
                          then cursor_version t + 1 else cursor_version t)\<rparr>"

definition del_formed :: "table \<Rightarrow> (error + bool \<times> table) option" where
  "del_formed t =
     (case delete_kt t of
        None \<Rightarrow> None
      | Some (Inl e) \<Rightarrow> Some (Inl e)
      | Some (Inr (n, t1)) \<Rightarrow>
         if n \<le> 0 then Some (Inr (False, t1))
         else
           (case del_loop t1 2 n of
              None \<Rightarrow> None
            | Some (Inl e) \<Rightarrow> Some (Inl e)
            | Some (Inr t2) \<Rightarrow>
               Some (Inr (True, modified (t2\<lparr>item_count := item_count t2 - 1\<rparr>)))))"

definition del :: "table \<Rightarrow> Byte list \<Rightarrow> (error + bool \<times> table) option" where
  "del t key =
     (if assertions t \<and> \<not> writable t then Some (Inl AssertionError)
      else if handle t < 0 then
        (if handle t = - 2 then Some (Inl throw_database_closed) else Some (Inr (False, t)))
      else if length key > FLINT_BTREE_MAX_KEY_LEN then Some (Inr (False, t))
      else if key = [] then Some (Inr (False, t))
      else
        (case form_key (kt t) key of
           Inl e \<Rightarrow> Some (Inl e)
         | Inr k \<Rightarrow> del_formed (t\<lparr>kt := k\<rparr>)))"



definition key_exists :: "table \<Rightarrow> Byte list \<Rightarrow> (error + bool \<times> table) option" where
  "key_exists t key =
     (if assertions t \<and> key = [] then Some (Inl AssertionError)
      else if length key > FLINT_BTREE_MAX_KEY_LEN then Some (Inr (False, t))
      else
        (case form_key (kt t) key of
           Inl e \<Rightarrow> Some (Inl e)
         | Inr k \<Rightarrow> find_own (t\<lparr>kt := k\<rparr>)))"

text \<open>
  \<^verbatim>\<open>FlintTable::add(key, tag, already_compressed)\<close>. \<open>add_loop\<close> is the loop that adds the
  \<open>m\<close> components, \<open>add_formed\<close> the part of \<^verbatim>\<open>add\<close> that follows the compression of the tag.
  The variables of type \<^verbatim>\<open>size_t\<close> are taken as 64-bit: \<open>size_t x\<close> is the value \<open>x\<close> as a
  \<^verbatim>\<open>size_t\<close>, and \<open>to_int x\<close> the conversion of a \<^verbatim>\<open>size_t\<close> to \<^verbatim>\<open>int\<close>. The offset \<open>off\<close> into the
  tag is an \<^verbatim>\<open>int\<close>; the model does not wrap it, so it is that of the code for tags shorter
  than \<open>2^31\<close> bytes.

  \<^verbatim>\<open>create_and_open\<close>, which \<^verbatim>\<open>add\<close> calls on a table that is not open, creates the base
  file and opens the table through \<^verbatim>\<open>FlintTable_base\<close>, which is not among the sources: what
  it does to the table is the parameter \<open>cao\<close>. The parameters \<open>z\<close>, \<open>init\<close>, \<open>dont\<close> and \<open>zs\<close> are
  those of \<open>add_compress\<close>.
\<close>

definition size_t :: "int \<Rightarrow> int" where
  "size_t x = x mod 2 ^ 64"

definition to_int :: "int \<Rightarrow> int" where
  "to_int x = sint (word_of_int x :: 32 word)"

function add_loop ::
  "table \<Rightarrow> Byte list \<Rightarrow> bool \<Rightarrow> int \<Rightarrow> int \<Rightarrow> int \<Rightarrow> int \<Rightarrow> int \<Rightarrow> int \<Rightarrow> int \<Rightarrow> bool \<Rightarrow> int \<Rightarrow> bool \<Rightarrow>
   (error + int \<times> bool \<times> table) option" where
  "add_loop t tag compressed cd L first_L m i off residue found n replacement =
     (if i \<le> m then
        (let l = (if i = m then residue else if i = 1 then first_L else L) in
         if assertions t \<and> \<not> (size_t (cd + l) \<le> uint (block_size t)
                                  \<and> size_t (off + l) \<le> int (length tag))
         then Some (Inl AssertionError)
         else
           (let t1 = t\<lparr>kt := set_component_of (set_tag (kt t) cd tag off l compressed) 0 i\<rparr>
            in case (if i > 1 then find_own t1 else Some (Inr (found, t1))) of
                 None \<Rightarrow> None
               | Some (Inl e) \<Rightarrow> Some (Inl e)
               | Some (Inr (found1, t2)) \<Rightarrow>
                  (case add_kt t2 found1 of
                     None \<Rightarrow> None
                   | Some (Inl e) \<Rightarrow> Some (Inl e)
                   | Some (Inr (n1, t3)) \<Rightarrow>
                      add_loop t3 tag compressed cd L first_L m (i + 1) (off + l)
                        (size_t (residue - l)) found1 n1 (replacement \<or> n1 > 0))))
      else Some (Inr (n, replacement, t)))"
  by pat_completeness auto

termination
  by (relation "measure (\<lambda>(t, tag, compressed, cd, L, first_L, m, i, rest). nat (m + 1 - i))") auto

declare add_loop.simps [simp del]

definition add_formed :: "table \<Rightarrow> Byte list \<Rightarrow> Byte list \<Rightarrow> bool \<Rightarrow> (error + table) option" where
  "add_formed t key tag compressed =
     (let cd = size_t (Key_length (kt_key t) + K1 + I2 + C2 + C2);
          L = size_t (max_item_size t - cd)
      in case find_own t of
           None \<Rightarrow> None
         | Some (Inl e) \<Rightarrow> Some (Inl e)
         | Some (Inr (found, t1)) \<Rightarrow>
            (let first_L =
                   (if \<not> found then
                      (let n = TOTAL_FREE (C_p (C t1 0)) mod size_t (max_item_size t1 + D2) in
                       if n > size_t (D2 + cd) then
                         (let n1 = size_t (n - (D2 + cd));
                              last = int (length tag) mod L
                          in if n1 \<ge> last \<or> (full_compaction t1 \<and> n1 \<ge> int (length key) + 34)
                             then n1 else L)
                       else L)
                    else L);
                 m = (if tag = [] then 1
                      else to_int (size_t (int (length tag) - first_L + L - 1) div L + 1))
             in if m \<ge> BYTE_PAIR_RANGE
                then Some (Inl (UnimplementedError ''Can't handle insanely large tags''))
                else
                  (case add_loop (t1\<lparr>kt := set_components_of (kt t1) 0 m\<rparr>) tag compressed
                          cd L first_L m 1 0 (int (length tag)) found 0 False of
                     None \<Rightarrow> None
                   | Some (Inl e) \<Rightarrow> Some (Inl e)
                   | Some (Inr (n, replacement, t2)) \<Rightarrow>
                      (case del_loop t2 (m + 1) n of
                         None \<Rightarrow> None
                       | Some (Inl e) \<Rightarrow> Some (Inl e)
                       | Some (Inr t3) \<Rightarrow>
                          Some (Inr (modified
                            (if replacement then t3
                             else t3\<lparr>item_count := item_count t3 + 1\<rparr>)))))))"

definition add ::
  "(table \<Rightarrow> error + table) \<Rightarrow> (int \<Rightarrow> Byte list \<Rightarrow> Byte list) \<Rightarrow> error option \<Rightarrow> int \<Rightarrow> bool \<Rightarrow>
   table \<Rightarrow> Byte list \<Rightarrow> Byte list \<Rightarrow> bool \<Rightarrow> (error + table) option" where
  "add cao z init dont zs t key tag already_compressed =
     (if assertions t \<and> \<not> writable t then Some (Inl AssertionError)
      else case (if handle t < 0 then cao t else Inr t) of
        Inl e \<Rightarrow> Some (Inl e)
      | Inr t1 \<Rightarrow>
         (case form_key (kt t1) key of
            Inl e \<Rightarrow> Some (Inl e)
          | Inr k \<Rightarrow>
             (case add_compress z init dont (compress_strategy t1) zs already_compressed tag of
                Inl e \<Rightarrow> Some (Inl e)
              | Inr cr \<Rightarrow> add_formed (t1\<lparr>kt := k\<rparr>) key (cr_tag cr) (cr_compressed cr))))"




section \<open>Properties\<close>

subsection \<open>The block size\<close>

lemma and_pred_nat: "0 < (n::nat) \<Longrightarrow> (n AND (n - 1) = 0) \<longleftrightarrow> (\<exists>k. n = 2 ^ k)"
proof (induction n rule: less_induct)
  case (less n)
  show ?case
  proof (cases "even n")
    case True
    then obtain m where m: "n = 2 * m" by (auto elim: evenE)
    with less.prems have m0: "0 < m" by simp
    have pred: "n - 1 = 2 * (m - 1) + 1" using m m0 by simp
    have "n AND (n - 1) = 2 * (m AND (m - 1))"
      unfolding pred unfolding m
      by (simp add: and_nat_rec[of "2 * m"] )
    then have "(n AND (n - 1) = 0) \<longleftrightarrow> (m AND (m - 1) = 0)" by simp
    also have "\<dots> \<longleftrightarrow> (\<exists>k. m = 2 ^ k)" using less.IH[of m] m m0 by simp
    also have "\<dots> \<longleftrightarrow> (\<exists>k. n = 2 ^ k)"
    proof
      assume "\<exists>k. m = 2 ^ k"
      then obtain k where "m = 2 ^ k" ..
      then have "n = 2 ^ Suc k" using m by simp
      then show "\<exists>k. n = 2 ^ k" ..
    next
      assume "\<exists>k. n = 2 ^ k"
      then obtain k where k: "n = 2 ^ k" ..
      with True less.prems m m0 have "k \<noteq> 0" by (cases k) auto
      then obtain k' where "k = Suc k'" by (cases k) auto
      with k m have "m = 2 ^ k'" by simp
      then show "\<exists>k. m = 2 ^ k" ..
    qed
    finally show ?thesis .
  next
    case False
    then obtain m where m: "n = 2 * m + 1" by (auto elim: oddE)
    have "n AND (n - 1) = 2 * m"
      unfolding m by (simp add: and_nat_rec[of "Suc (2 * m)" "2 * m"])
    moreover have "(\<exists>k. n = 2 ^ k) \<longleftrightarrow> m = 0"
    proof
      assume "\<exists>k. n = 2 ^ k"
      then obtain k where k: "n = 2 ^ k" ..
      show "m = 0"
      proof (cases k)
        case 0 with k m show ?thesis by simp
      next
        case (Suc k') with k False show ?thesis by simp
      qed
    next
      assume "m = 0" then have "n = 2 ^ 0" using m by simp
      then show "\<exists>k. n = 2 ^ k" ..
    qed
    ultimately show ?thesis by simp
  qed
qed

lemma and_pred_word:
  fixes n :: uint4
  assumes "n \<noteq> 0"
  shows "(n AND (n - 1) = 0) \<longleftrightarrow> (\<exists>k. unat n = 2 ^ k)"
proof -
  have n0: "0 < unat n" using assms by (simp add: unat_gt_0)
  have "unat (n - 1) = unat n - 1" using assms by (simp add: unat_minus_one)
  then have "unat (n AND (n - 1)) = unat n AND (unat n - 1)"
    by (simp add: unsigned_and_eq)
  moreover have "(n AND (n - 1) = 0) \<longleftrightarrow> (unat (n AND (n - 1)) = 0)"
    by (simp add: unat_eq_zero)
  ultimately show ?thesis using and_pred_nat[OF n0] by simp
qed

text \<open>
  C10. \<^verbatim>\<open>set_block_size(n)\<close> never fails. When \<open>n\<close> is below 2048, above 65536 or not a power
  of two, the block size becomes the default block size; a power of two in
  \<open>[2048, 65536]\<close> is stored unchanged.
\<close>

theorem set_block_size_spec:
  "set_block_size dflt n =
     (if unat n < 2048 \<or> 65536 < unat n \<or> (\<nexists>k. unat n = 2 ^ k) then dflt else n)"
proof (cases "n = 0")
  case True then show ?thesis by (simp add: set_block_size_def BYTE_PAIR_RANGE_def)
next
  case False
  have a: "n < 2048 \<longleftrightarrow> unat n < 2048" by (simp add: word_less_nat_alt)
  have b: "n > 65536 \<longleftrightarrow> 65536 < unat n" by (simp add: word_less_nat_alt)
  show ?thesis using and_pred_word[OF False] a b
    by (simp add: set_block_size_def BYTE_PAIR_RANGE_def)
qed

theorem set_block_size_spec_witness:
  "set_block_size 8192 4096 = 4096 \<and> set_block_size 8192 1024 = 8192
   \<and> set_block_size 8192 131072 = 8192"
proof -
  have "(4096::nat) = 2 ^ 12" by simp
  then have p: "\<exists>k. (4096::nat) = 2 ^ k" ..
  show ?thesis
    using set_block_size_spec[of 8192 4096] set_block_size_spec[of 8192 1024]
      set_block_size_spec[of 8192 131072] p
    by simp
qed

subsection \<open>Key order\<close>

lemma bytes_0 [simp]: "bytes p a 0 = []"
  by (simp add: bytes_def)



lemma nth_bytes [simp]: "i < n \<Longrightarrow> bytes p a n ! i = p (a + int i)"
  by (simp add: bytes_def)
















subsection \<open>Separator keys\<close>





lemma length_Key_body [simp]: "length (Key_body k) = nat (Key_length k)"
  by (simp add: Key_body_def)

lemma lcp_Nil2 [simp]: "longest_common_prefix xs [] = []"
  by (cases xs) simp_all














subsection \<open>Compression of a tag\<close>



subsection \<open>Loading a block into a cursor\<close>









subsection \<open>Search\<close>











lemma kt_key_cong: "kt t1 = kt t \<Longrightarrow> kt_key t1 = kt_key t"
  by (simp add: kt_key_def)























subsection \<open>Commit\<close>

lemma write_block_error:
  "write_block t n p = Inl e \<Longrightarrow> e = AssertionError \<or> e = DatabaseError ''Error writing block''"
  by (auto simp add: write_block_def Assert_def Let_def split: if_splits)

lemma write_block_revision:
  "write_block t n p = Inr t1 \<Longrightarrow> revision_number t1 = revision_number t"
  by (auto simp add: write_block_def Assert_def Let_def split: if_splits)

lemma block_to_cursor_error:
  "block_to_cursor t Cu j n = Inl e \<Longrightarrow> e \<noteq> DatabaseError ''New revision too low''"
  by (auto simp add: block_to_cursor_def Assert_def Let_def read_block_def set_overwritten_def
      split: if_splits sum.splits option.splits prod.splits dest!: write_block_error)

lemma block_to_cursor_revision:
  "block_to_cursor t Cu j n = Inr (t1, Cu1) \<Longrightarrow> revision_number t1 = revision_number t"
  by (auto simp add: block_to_cursor_def Assert_def Let_def
      split: if_splits sum.splits prod.splits dest!: write_block_revision)

lemma read_root_error:
  "read_root t = Inl e \<Longrightarrow> e \<noteq> DatabaseError ''New revision too low''"
  by (auto simp add: read_root_def block_to_cursor_C_def Let_def set_overwritten_def
      split: if_splits sum.splits prod.splits dest!: block_to_cursor_error)

lemma read_root_revision:
  "read_root t = Inr t1 \<Longrightarrow> revision_number t1 = revision_number t"
  by (auto simp add: read_root_def block_to_cursor_C_def Let_def
      split: if_splits sum.splits prod.splits dest!: block_to_cursor_revision)

lemma commit_try_error:
  "commit_try env t revision = (t1, Some e) \<Longrightarrow> e \<noteq> DatabaseError ''New revision too low''"
  by (auto simp add: commit_try_def Let_def split: if_splits sum.splits dest!: read_root_error)

lemma commit_try_revision:
  "commit_try env t revision = (t1, None) \<Longrightarrow> revision_number t1 = revision"
  by (auto simp add: commit_try_def Let_def split: if_splits sum.splits dest!: read_root_revision)


text \<open>
  C2. On a writable table, \<^verbatim>\<open>commit(new_revision, ...)\<close> with a revision that is not
  strictly greater than the table's revision number raises \<open>DatabaseError\<close>, "New revision
  too low", and leaves the table, and so its revision number, as it was. With a strictly
  greater revision the check passes: that error is not raised, a table without a file
  takes the new revision, and whenever the commit succeeds the revision number is the
  new revision.
\<close>

theorem commit_revision_check:
  assumes "writable t"
  shows "(revision \<le> revision_number t \<longrightarrow>
            commit env t revision = (t, Some (DatabaseError ''New revision too low'')))
       \<and> (revision_number t < revision \<longrightarrow>
            snd (commit env t revision) \<noteq> Some (DatabaseError ''New revision too low'')
          \<and> (handle t < 0 \<and> handle t \<noteq> - 2 \<longrightarrow>
               commit env t revision =
                 (t\<lparr>latest_revision_number := revision, revision_number := revision\<rparr>, None))
          \<and> (snd (commit env t revision) = None \<longrightarrow>
               revision_number (fst (commit env t revision)) = revision))"
proof (intro conjI impI)
  assume "revision \<le> revision_number t"
  then show "commit env t revision = (t, Some (DatabaseError ''New revision too low''))"
    using assms by (simp add: commit_def)
next
  assume lt: "revision_number t < revision"
  show "snd (commit env t revision) \<noteq> Some (DatabaseError ''New revision too low'')"
    using assms lt
    by (auto simp add: commit_def throw_database_closed_def
        split: prod.splits option.splits dest!: commit_try_error)
  show "commit env t revision =
          (t\<lparr>latest_revision_number := revision, revision_number := revision\<rparr>, None)"
    if "handle t < 0 \<and> handle t \<noteq> - 2"
    using assms lt that by (simp add: commit_def)
  show "revision_number (fst (commit env t revision)) = revision"
    if "snd (commit env t revision) = None"
    using assms lt that
    by (auto simp add: commit_def split: if_splits prod.splits option.splits
        dest!: commit_try_revision)
qed


theorem commit_revision_check_witness:
  "writable ex_writer
   \<and> commit \<lparr>sync_ok = True, write_base_ok = True, rename_ok = True, tmp_gone = False\<rparr> ex_writer 5
       = (ex_writer, Some (DatabaseError ''New revision too low''))
   \<and> commit \<lparr>sync_ok = True, write_base_ok = True, rename_ok = True, tmp_gone = False\<rparr> ex_writer 6
       = (ex_writer\<lparr>latest_revision_number := 6, revision_number := 6\<rparr>, None)
   \<and> snd (commit \<lparr>sync_ok = True, write_base_ok = True, rename_ok = True, tmp_gone = False\<rparr>
             (ex_writer\<lparr>handle := 3, block_size := 2048\<rparr>) 6) = None
   \<and> revision_number
        (fst (commit \<lparr>sync_ok = True, write_base_ok = True, rename_ok = True, tmp_gone = False\<rparr>
             (ex_writer\<lparr>handle := 3, block_size := 2048\<rparr>) 6)) = 6"
proof -
  have s: "snd (commit \<lparr>sync_ok = True, write_base_ok = True, rename_ok = True, tmp_gone = False\<rparr>
             (ex_writer\<lparr>handle := 3, block_size := 2048\<rparr>) 6) = None"
    by (simp add: commit_def commit_try_def read_root_def ex_writer_def FlintTable_new_def Let_def
        next_free_block_def split: prod.splits)
  have w: "writable ex_writer" by (simp add: ex_writer_def FlintTable_new_def)
  have r: "revision_number ex_writer = 5" "handle ex_writer = - 1"
    by (simp_all add: ex_writer_def FlintTable_new_def)
  show ?thesis
    using commit_revision_check[OF w, of 5 "\<lparr>sync_ok = True, write_base_ok = True, rename_ok = True, tmp_gone = False\<rparr>"]
      commit_revision_check[OF w, of 6 "\<lparr>sync_ok = True, write_base_ok = True, rename_ok = True, tmp_gone = False\<rparr>"]
      commit_revision_check[of "ex_writer\<lparr>handle := 3, block_size := 2048\<rparr>" 6
        "\<lparr>sync_ok = True, write_base_ok = True, rename_ok = True, tmp_gone = False\<rparr>"]
      w r s
    by simp
qed

subsection \<open>Compaction and the split of a block\<close>


























subsection \<open>Key lengths\<close>








end
